theory Spec2Isabelle
  imports Main "HOL-Library.Word"
begin

section \<open>The tokenizing benchmark driver: samples/csv_parsing/csv2_parse.cpp\<close>

subsection \<open>Data\<close>

text \<open>
  \<^verbatim>\<open>size_t rows{0}, cells{0};\<close> The counters are unsigned machine integers; on the
  LP64 targets the benchmark is built for, \<open>size_t\<close> has 64 bits, and \<open>+= 1\<close> wraps.
\<close>

type_synonym size_t = "64 word"

record counters =
  rows :: size_t
  cells :: size_t

abbreviation LF :: char where
  "LF \<equiv> CHR 0x0A"

text \<open>
  What the driver does to its surroundings. \<open>cout\<close> and \<open>cerr\<close> hold the characters
  the driver has inserted into \<open>std::cout\<close> and \<open>std::cerr\<close>. The other two fields are
  instrumentation: \<open>benchmarks\<close> lists the labels handed to \<open>benchmark(...)\<close>, and
  \<open>passes\<close> holds, for every execution of the lambda that declared the counters, the
  successive values of \<open>(rows, cells)\<close>: the initial value, then the value after each
  \<open>+= 1\<close>. The counters are locals of the lambda, so the list is the only way a theorem
  can look at them.
\<close>

record world =
  cout :: string
  cerr :: string
  benchmarks :: "string list"
  passes :: "counters list list"

text \<open>
  \<open>csv2.hpp\<close> is not among the sources. The driver uses four operations of
  \<^verbatim>\<open>Reader<delimiter<','>, quote_character<'"'>, first_row_is_header<false>>\<close>:
  the default constructor, \<open>mmap\<close> (whose \<open>bool\<close> the \<open>if\<close> tests), the range of
  rows of the reader and the range of cells of a row. They are a parameter of the
  model. Both ranges are finite sequences (the spec: a "lazy, finite,
  restartable-per-iteration sequence of rows, each itself a lazy finite sequence of
  cells"), and \<open>mmap\<close> answers as a function of the path: the file does not change
  while the benchmark runs.
\<close>

record ('r, 'row, 'cell) Reader =
  construct :: 'r
  mmap :: "'r \<Rightarrow> string \<Rightarrow> bool \<times> 'r"
  row_seq :: "'r \<Rightarrow> 'row list"
  cell_seq :: "'row \<Rightarrow> 'cell list"

subsection \<open>The counting loops (lines 17 to 23)\<close>

text \<open>
  \<^verbatim>\<open>for (const auto cell : row) { cells += 1; }\<close>
  The result lists the counters after each increment.
\<close>

fun count_cells :: "'cell list \<Rightarrow> counters \<Rightarrow> counters list" where
  "count_cells [] c = []"
| "count_cells (cell # rest) c =
     (let c' = c\<lparr>cells := cells c + 1\<rparr> in c' # count_cells rest c')"

text \<open>
  \<^verbatim>\<open>for (const auto row : csv) { rows += 1; for (...) {...} }\<close>
\<close>

fun count_rows :: "('row \<Rightarrow> 'cell list) \<Rightarrow> 'row list \<Rightarrow> counters \<Rightarrow> counters list" where
  "count_rows cs [] c = []"
| "count_rows cs (row # rest) c =
     (let c1 = c\<lparr>rows := rows c + 1\<rparr>;
          inner = count_cells (cs row) c1;
          c2 = last (c1 # inner)
      in c1 # inner @ count_rows cs rest c2)"

text \<open>
  \<^verbatim>\<open>size_t rows{0}, cells{0}; for (const auto row : csv) ...\<close>
  The first entry is the pair of counters as declared, the last one the pair when the
  outer loop ends.
\<close>

definition traversal :: "('r, 'row, 'cell) Reader \<Rightarrow> 'r \<Rightarrow> counters list" where
  "traversal rd csv =
     (let c0 = \<lparr>rows = 0, cells = 0\<rparr>
      in c0 # count_rows (cell_seq rd) (row_seq rd csv) c0)"

subsection \<open>The benchmarked lambda (lines 14 to 27)\<close>

text \<open>
  The lambda captures \<open>argv\<close> by reference and reads \<open>argv[1]\<close>. \<open>std::endl\<close> inserts a
  line feed (and flushes, which the model does not show).
\<close>

definition body :: "('r, 'row, 'cell) Reader \<Rightarrow> string list \<Rightarrow> world \<Rightarrow> world" where
  "body rd argv w =
     (let csv = construct rd;
          (mapped, csv') = mmap rd csv (argv ! 1)
      in if mapped
         then w\<lparr>passes := passes w @ [traversal rd csv']\<rparr>
         else w\<lparr>cout := cout w @ ''error: Failed to open '' @ argv ! 1 @ [LF]\<rparr>)"

subsection \<open>The harness\<close>

primrec iterate :: "nat \<Rightarrow> ('s \<Rightarrow> 's) \<Rightarrow> 's \<Rightarrow> 's" where
  "iterate 0 f s = s"
| "iterate (Suc n) f s = iterate n f (f s)"

text \<open>
  Modelled from the spec: \<open>benchmark(label, body)\<close> of \<open>benchmark/benchmark.hpp\<close>, which
  is not among the sources. The spec calls it "a benchmarking harness that owns
  iteration counts, timing, warm-up, and result reporting and is invoked by
  name/label plus a body to execute". The number \<open>n\<close> of executions of the body
  (warm-up and timed ones alike) is the harness's choice and so a parameter; the
  executions follow one another on one thread. Timing and the harness's own report are
  not part of the model.
\<close>

definition benchmark :: "nat \<Rightarrow> string \<Rightarrow> (world \<Rightarrow> world) \<Rightarrow> world \<Rightarrow> world" where
  "benchmark n label f w = iterate n f (w\<lparr>benchmarks := benchmarks w @ [label]\<rparr>)"

subsection \<open>main\<close>

text \<open>
  \<open>EXIT_FAILURE\<close> is the macro of \<open>cstdlib\<close>; its value is 1 in glibc, musl, the BSD
  and Apple C libraries and the Microsoft runtime.
\<close>

definition EXIT_FAILURE :: int where
  "EXIT_FAILURE = 1"

text \<open>
  \<^verbatim>\<open>int main(int argc, char **argv)\<close>. The result is the exit status and the world
  the process leaves. Control that reaches the end of \<open>main\<close> returns 0. A hosted
  environment passes \<open>argc\<close> entries in \<open>argv\<close>, so \<open>argv[1]\<close> is in range wherever it is
  read; the theorems about that path say so as \<open>int (length argv) = argc\<close>.
\<close>

definition main :: "nat \<Rightarrow> ('r, 'row, 'cell) Reader \<Rightarrow> int \<Rightarrow> string list \<Rightarrow> world \<Rightarrow> int \<times> world" where
  "main n rd argc argv w =
     (if argc \<noteq> 2
      then (EXIT_FAILURE, w\<lparr>cout := cout w @ ''Usage: ./main <csv_file>'' @ [LF]\<rparr>)
      else (0, benchmark n (''Benchmark #1 csv2 {'' @ argv ! 1 @ ''}'') (body rd argv) w))"

subsection \<open>The tokenizer\<close>

text \<open>
  The definitions of this subsection stand for \<open>csv2.hpp\<close>, which is not among the
  sources; the last one says what the spec gives for it.
\<close>

text \<open>One more character at the front of the first piece.\<close>

fun push_front :: "'a \<Rightarrow> 'a list list \<Rightarrow> 'a list list" where
  "push_front c [] = [[c]]"
| "push_front c (l # ls) = (c # l) # ls"

text \<open>
  Modelled from the spec: the range of rows of the \<open>Reader\<close> of \<open>csv2.hpp\<close>. Every line
  feed ends a row, and what follows the last line feed is a row when it is not empty.
\<close>

fun split_rows :: "string \<Rightarrow> string list" where
  "split_rows [] = []"
| "split_rows (c # cs) =
     (if c = LF then [] # split_rows cs else push_front c (split_rows cs))"

text \<open>
  Modelled from the spec: the range of cells of a row of \<open>csv2.hpp\<close>. The row is cut at
  every delimiter that does not stand between quote characters. The flag says whether a
  quote is open. A cell keeps its text as it stands in the row, quotes included.
\<close>

fun split_cells :: "char \<Rightarrow> char \<Rightarrow> bool \<Rightarrow> string \<Rightarrow> string list" where
  "split_cells d q open_quote [] = [[]]"
| "split_cells d q open_quote (c # cs) =
     (if c = q then push_front c (split_cells d q (\<not> open_quote) cs)
      else if c = d \<and> \<not> open_quote then [] # split_cells d q False cs
      else push_front c (split_cells d q open_quote cs))"

text \<open>
  Modelled from the spec: the class template \<open>Reader\<close> of \<open>csv2.hpp\<close>, which is not
  among the sources. The spec describes it as "a tokenizing library that, given
  delimiter and quote configuration, exposes a file-backed, lazy row/cell iteration
  API and a mapping success/failure signal", "a component that splits delimited text
  into rows and cells", here "using comma as delimiter and double-quote as the quote
  character, treating no row as a header", and its examples are well-formed CSV files
  whose rows end in a line feed. The parameters are the delimiter, the quote character,
  whether the first row is a header (and then not a row of the range), and the file
  system: the text \<open>mmap\<close> finds at a path, or \<open>None\<close> where the mapping fails. The
  spec says nothing on quotes that span rows or on text after the last line feed; the
  model cuts rows at every line feed and takes a non-empty remainder for a row.
\<close>

definition csv2 ::
  "char \<Rightarrow> char \<Rightarrow> bool \<Rightarrow> (string \<Rightarrow> string option) \<Rightarrow> (string option, string, string) Reader" where
  "csv2 d q header fs =
     \<lparr>construct = None,
      mmap = (\<lambda>r path. case fs path of None \<Rightarrow> (False, r) | Some text \<Rightarrow> (True, Some text)),
      row_seq = (\<lambda>r. case r of
                   None \<Rightarrow> []
                 | Some text \<Rightarrow> if header then drop 1 (split_rows text) else split_rows text),
      cell_seq = split_cells d q False\<rparr>"

section \<open>The allocation benchmarks: samples/make_shared/make_shared.cpp\<close>

subsection \<open>Data\<close>

text \<open>
  \<^verbatim>\<open>struct Foo { std::string data_1{"1234567891012131415161718192021"};
               int data_2{5}; float data_3{3.1415f}; };\<close>
  \<open>data_2\<close> is a 32-bit \<open>int\<close> (read with \<open>sint\<close>). \<open>data_3\<close> is kept as the bits of
  the literal: \<open>3.1415f\<close> rounds to the binary32 value \<open>0x40490E56\<close>. No arithmetic is
  done on either.
\<close>

record Foo =
  data_1 :: string
  data_2 :: "32 word"
  data_3 :: "32 word"

definition Foo_init :: Foo where
  "Foo_init = \<lparr>data_1 = ''1234567891012131415161718192021'', data_2 = 5, data_3 = 0x40490E56\<rparr>"

text \<open>
  The free store. \<open>std::shared_ptr\<close> and \<open>std::make_shared\<close> belong to the standard
  library; the model follows the standard's description: \<open>shared_ptr<Foo>(p)\<close> takes
  ownership of \<open>p\<close> in a control block of its own with use count 1,
  \<open>make_shared<Foo>()\<close> obtains one block for the count and the object, and the
  destructor of the last owner destroys the object and gives the storage back. There
  are no weak owners in this program.
\<close>

type_synonym addr = nat

datatype block =
    Object Foo
  | Control nat addr
  | Combined nat Foo

record heap =
  blocks :: "(addr \<times> block) list"
  next_addr :: addr
  allocations :: nat
  deallocations :: nat
  constructed :: nat
  destroyed :: nat

text \<open>What one execution of a benchmark body shows of its handle: the use count and the
  object seen through the handle while \<open>foo_ptr\<close> is in scope, and the use count the
  destructor of \<open>foo_ptr\<close> leaves.\<close>

record scope_report =
  owners :: nat
  pointee :: "Foo option"
  owners_at_exit :: nat

subsection \<open>Operations of the free store and of the handle\<close>

definition allocate :: "block \<Rightarrow> heap \<Rightarrow> addr \<times> heap" where
  "allocate b h =
     (next_addr h,
      h\<lparr>blocks := (next_addr h, b) # blocks h,
        next_addr := Suc (next_addr h),
        allocations := Suc (allocations h)\<rparr>)"

definition deallocate :: "addr \<Rightarrow> heap \<Rightarrow> heap" where
  "deallocate a h =
     h\<lparr>blocks := filter (\<lambda>kb. fst kb \<noteq> a) (blocks h),
       deallocations := Suc (deallocations h)\<rparr>"

text \<open>\<^verbatim>\<open>new Foo()\<close>: storage, then the constructor with the default member initializers.\<close>

definition new_Foo :: "heap \<Rightarrow> addr \<times> heap" where
  "new_Foo h =
     (let (p, h1) = allocate (Object Foo_init) h
      in (p, h1\<lparr>constructed := Suc (constructed h1)\<rparr>))"

text \<open>\<^verbatim>\<open>std::shared_ptr<Foo>(p)\<close>: the handle is the address of its control block.\<close>

definition shared_ptr_of :: "addr \<Rightarrow> heap \<Rightarrow> addr \<times> heap" where
  "shared_ptr_of p h = allocate (Control 1 p) h"

text \<open>\<^verbatim>\<open>std::make_shared<Foo>()\<close>\<close>

definition make_shared :: "heap \<Rightarrow> addr \<times> heap" where
  "make_shared h =
     (let (s, h1) = allocate (Combined 1 Foo_init) h
      in (s, h1\<lparr>constructed := Suc (constructed h1)\<rparr>))"

definition use_count :: "addr \<Rightarrow> heap \<Rightarrow> nat" where
  "use_count s h =
     (case map_of (blocks h) s of
        Some (Control k p) \<Rightarrow> k
      | Some (Combined k f) \<Rightarrow> k
      | _ \<Rightarrow> 0)"

definition deref :: "addr \<Rightarrow> heap \<Rightarrow> Foo option" where
  "deref s h =
     (case map_of (blocks h) s of
        Some (Control k p) \<Rightarrow>
          (case map_of (blocks h) p of Some (Object f) \<Rightarrow> Some f | _ \<Rightarrow> None)
      | Some (Combined k f) \<Rightarrow> Some f
      | _ \<Rightarrow> None)"

text \<open>
  The destructor of a handle: the use count goes down by one; at zero the object is
  destroyed and the storage freed (the object's block and the control block, or the one
  combined block). The result is the use count left, with the store.
\<close>

definition release :: "addr \<Rightarrow> heap \<Rightarrow> nat \<times> heap" where
  "release s h =
     (case map_of (blocks h) s of
        Some (Control k p) \<Rightarrow>
          if k \<le> 1
          then (0, deallocate s (deallocate p (h\<lparr>destroyed := Suc (destroyed h)\<rparr>)))
          else (k - 1, h\<lparr>blocks := (s, Control (k - 1) p) # filter (\<lambda>kb. fst kb \<noteq> s) (blocks h)\<rparr>)
      | Some (Combined k f) \<Rightarrow>
          if k \<le> 1
          then (0, deallocate s (h\<lparr>destroyed := Suc (destroyed h)\<rparr>))
          else (k - 1, h\<lparr>blocks := (s, Combined (k - 1) f) # filter (\<lambda>kb. fst kb \<noteq> s) (blocks h)\<rparr>)
      | _ \<Rightarrow> (0, h))"

subsection \<open>The two benchmark bodies\<close>

text \<open>
  \<^verbatim>\<open>BENCHMARK("shared_ptr/new")
  { std::shared_ptr<Foo> foo_ptr = std::shared_ptr<Foo>(new Foo()); }\<close>
  The closing brace ends the scope of \<open>foo_ptr\<close> and runs its destructor.
\<close>

definition shared_ptr_new :: "heap \<Rightarrow> scope_report \<times> heap" where
  "shared_ptr_new h =
     (let (p, h1) = new_Foo h;
          (foo_ptr, h2) = shared_ptr_of p h1;
          (left, h3) = release foo_ptr h2
      in (\<lparr>owners = use_count foo_ptr h2, pointee = deref foo_ptr h2, owners_at_exit = left\<rparr>, h3))"

text \<open>
  \<^verbatim>\<open>BENCHMARK("shared_ptr/make_shared")
  { std::shared_ptr<Foo> foo_ptr = std::make_shared<Foo>(); }\<close>
\<close>

definition shared_ptr_make_shared :: "heap \<Rightarrow> scope_report \<times> heap" where
  "shared_ptr_make_shared h =
     (let (foo_ptr, h2) = make_shared h;
          (left, h3) = release foo_ptr h2
      in (\<lparr>owners = use_count foo_ptr h2, pointee = deref foo_ptr h2, owners_at_exit = left\<rparr>, h3))"

text \<open>
  Modelled from the spec: the macro \<open>BENCHMARK\<close> of \<open>benchmark/registration.hpp\<close>, which is
  not among the sources, registers the body with the harness, "which controls invocation
  and reporting". The harness runs a registered body \<open>n\<close> times, one execution after the
  other (the number is its choice and so a parameter). The reports of the executions are
  collected in order.
\<close>

primrec run_case :: "nat \<Rightarrow> (heap \<Rightarrow> scope_report \<times> heap) \<Rightarrow> heap \<Rightarrow> scope_report list \<times> heap" where
  "run_case 0 f h = ([], h)"
| "run_case (Suc n) f h =
     (let (r, h1) = f h;
          (rs, h2) = run_case n f h1
      in (r # rs, h2))"

text \<open>Addresses the store has not handed out are free.\<close>

definition fresh_above :: "heap \<Rightarrow> bool" where
  "fresh_above h = (\<forall>kb \<in> set (blocks h). fst kb < next_addr h)"

section \<open>Concrete inputs\<close>

text \<open>
  Two small readers and an empty world, for running the driver on concrete inputs:
  \<open>no_file\<close> maps nothing, \<open>rows_of_chars rs\<close> maps every path and yields the rows \<open>rs\<close>,
  each character of a row being a cell.
\<close>

definition no_file :: "(unit, string, char) Reader" where
  "no_file = \<lparr>construct = (), mmap = (\<lambda>r p. (False, r)), row_seq = (\<lambda>r. []), cell_seq = (\<lambda>row. row)\<rparr>"

definition rows_of_chars :: "string list \<Rightarrow> (unit, string, char) Reader" where
  "rows_of_chars rs = \<lparr>construct = (), mmap = (\<lambda>r p. (True, r)), row_seq = (\<lambda>r. rs), cell_seq = (\<lambda>row. row)\<rparr>"

definition quiet :: world where
  "quiet = \<lparr>cout = [], cerr = [], benchmarks = [], passes = []\<rparr>"

definition empty_heap :: heap where
  "empty_heap = \<lparr>blocks = [], next_addr = 0, allocations = 0, deallocations = 0, constructed = 0, destroyed = 0\<rparr>"

section \<open>The counting loops and the repeated lambda\<close>

lemma last_count_cells:
  "last (c # count_cells xs c) = c\<lparr>cells := cells c + of_nat (length xs)\<rparr>"
  by (induction xs arbitrary: c) (simp_all add: Let_def algebra_simps)

lemma last_nested:
  "last (a # (b # xs) @ ys) = last (last (b # xs) # ys)"
  by (cases ys) simp_all

lemma last_count_rows:
  "last (c # count_rows cs rs c) =
     c\<lparr>rows := rows c + of_nat (length rs),
       cells := cells c + of_nat (sum_list (map (\<lambda>r. length (cs r)) rs))\<rparr>"
proof (induction rs arbitrary: c)
  case Nil
  then show ?case by simp
next
  case (Cons r rs)
  define c1 where "c1 = c\<lparr>rows := rows c + 1\<rparr>"
  define c2 where "c2 = last (c1 # count_cells (cs r) c1)"
  have c2: "c2 = c1\<lparr>cells := cells c1 + of_nat (length (cs r))\<rparr>"
    unfolding c2_def by (rule last_count_cells)
  have "count_rows cs (r # rs) c = (c1 # count_cells (cs r) c1) @ count_rows cs rs c2"
    by (simp add: Let_def c1_def c2_def)
  then have "last (c # count_rows cs (r # rs) c) = last (c2 # count_rows cs rs c2)"
    unfolding c2_def by (simp only: last_nested)
  also have "\<dots> = c2\<lparr>rows := rows c2 + of_nat (length rs),
       cells := cells c2 + of_nat (sum_list (map (\<lambda>r. length (cs r)) rs))\<rparr>"
    by (rule Cons.IH)
  finally show ?case
    by (simp add: c2 c1_def algebra_simps)
qed

lemma last_traversal:
  "last (traversal rd csv) =
     \<lparr>rows = of_nat (length (row_seq rd csv)),
      cells = of_nat (sum_list (map (\<lambda>r. length (cell_seq rd r)) (row_seq rd csv)))\<rparr>"
  unfolding traversal_def Let_def by (simp only: last_count_rows) simp

lemma iterate_body_unmapped:
  assumes "\<not> fst (mmap rd (construct rd) (argv ! 1))"
  shows "iterate n (body rd argv) w =
           w\<lparr>cout := cout w @ concat (replicate n (''error: Failed to open '' @ argv ! 1 @ [LF]))\<rparr>"
  using assms
  by (induction n arbitrary: w) (simp_all add: body_def split_beta)

lemma iterate_body_mapped:
  assumes "fst (mmap rd (construct rd) (argv ! 1))"
  shows "iterate n (body rd argv) w =
           w\<lparr>passes := passes w @ replicate n (traversal rd (snd (mmap rd (construct rd) (argv ! 1))))\<rparr>"
  using assms
  by (induction n arbitrary: w) (simp_all add: body_def split_beta replicate_append_same)

lemma count_cells_steps:
  "successively (\<lambda>c c'. c' = c\<lparr>rows := rows c + 1\<rparr> \<or> c' = c\<lparr>cells := cells c + 1\<rparr>)
     (c # count_cells xs c)"
  by (induction xs arbitrary: c) (simp_all add: Let_def)

lemma count_rows_steps:
  "successively (\<lambda>c c'. c' = c\<lparr>rows := rows c + 1\<rparr> \<or> c' = c\<lparr>cells := cells c + 1\<rparr>)
     (c # count_rows cs rs c)"
    (is "successively ?B _")
proof (induction rs arbitrary: c)
  case Nil
  then show ?case by simp
next
  case (Cons r rs)
  define c1 where "c1 = c\<lparr>rows := rows c + 1\<rparr>"
  define c2 where "c2 = last (c1 # count_cells (cs r) c1)"
  define tl_part where "tl_part = count_rows cs rs c2"
  have eq: "count_rows cs (r # rs) c = (c1 # count_cells (cs r) c1) @ tl_part"
    by (simp add: Let_def c1_def c2_def tl_part_def)
  have inner: "successively ?B (c1 # count_cells (cs r) c1)"
    by (rule count_cells_steps)
  have outer: "successively ?B (c2 # tl_part)"
    unfolding tl_part_def by (rule Cons.IH)
  have joined: "successively ?B ((c1 # count_cells (cs r) c1) @ tl_part)"
  proof (cases tl_part)
    case Nil
    with inner show ?thesis by simp
  next
    case (Cons t ts)
    with outer have "?B c2 t" and "successively ?B tl_part" by simp_all
    with inner Cons show ?thesis
      unfolding successively_append_iff c2_def by simp
  qed
  have "?B c c1" by (simp add: c1_def)
  with joined show ?case
    unfolding eq by simp
qed

lemma traversal_steps:
  "hd (traversal rd csv) = \<lparr>rows = 0, cells = 0\<rparr> \<and>
   successively (\<lambda>c c'. c' = c\<lparr>rows := rows c + 1\<rparr> \<or> c' = c\<lparr>cells := cells c + 1\<rparr>)
     (traversal rd csv)"
  unfolding traversal_def Let_def using count_rows_steps by simp

lemma passes_main:
  "passes (snd (main n rd argc argv w)) =
     passes w @ (if argc = 2 \<and> fst (mmap rd (construct rd) (argv ! 1))
                 then replicate n (traversal rd (snd (mmap rd (construct rd) (argv ! 1))))
                 else [])"
  by (simp add: main_def benchmark_def iterate_body_mapped iterate_body_unmapped)

lemma cerr_iterate_body:
  "cerr (iterate n (body rd argv) w) = cerr w"
  by (induction n arbitrary: w) (simp_all add: body_def split_beta Let_def)

section \<open>One execution and \<open>n\<close> executions of an allocation benchmark\<close>

lemma filter_fresh:
  assumes "fresh_above h" and "next_addr h \<le> a"
  shows "filter (\<lambda>kb. fst kb \<noteq> a) (blocks h) = blocks h"
  using assms by (auto simp: fresh_above_def filter_id_conv)

lemma shared_ptr_new_report:
  "fst (shared_ptr_new h) = \<lparr>owners = 1, pointee = Some Foo_init, owners_at_exit = 0\<rparr>"
  by (simp add: shared_ptr_new_def new_Foo_def shared_ptr_of_def allocate_def release_def
      use_count_def deref_def Let_def)

lemma shared_ptr_make_shared_report:
  "fst (shared_ptr_make_shared h) = \<lparr>owners = 1, pointee = Some Foo_init, owners_at_exit = 0\<rparr>"
  by (simp add: shared_ptr_make_shared_def make_shared_def allocate_def release_def
      use_count_def deref_def Let_def)

lemma shared_ptr_new_heap:
  assumes "fresh_above h"
  shows "snd (shared_ptr_new h) =
           h\<lparr>next_addr := next_addr h + 2,
             allocations := allocations h + 2,
             deallocations := deallocations h + 2,
             constructed := constructed h + 1,
             destroyed := destroyed h + 1\<rparr>"
  using filter_fresh [OF assms, of "next_addr h"] filter_fresh [OF assms, of "Suc (next_addr h)"]
  by (simp add: shared_ptr_new_def new_Foo_def shared_ptr_of_def allocate_def release_def
      deallocate_def Let_def)

lemma shared_ptr_make_shared_heap:
  assumes "fresh_above h"
  shows "snd (shared_ptr_make_shared h) =
           h\<lparr>next_addr := next_addr h + 1,
             allocations := allocations h + 1,
             deallocations := deallocations h + 1,
             constructed := constructed h + 1,
             destroyed := destroyed h + 1\<rparr>"
  using filter_fresh [OF assms, of "next_addr h"]
  by (simp add: shared_ptr_make_shared_def make_shared_def allocate_def release_def
      deallocate_def Let_def)

lemma run_case_cycles:
  assumes step: "\<And>h. fresh_above h \<Longrightarrow>
      snd (f h) = h\<lparr>next_addr := next_addr h + k,
                     allocations := allocations h + k,
                     deallocations := deallocations h + k,
                     constructed := constructed h + 1,
                     destroyed := destroyed h + 1\<rparr>"
    and report: "\<And>h. fst (f h) = r"
    and "fresh_above h"
  shows "run_case n f h =
           (replicate n r,
            h\<lparr>next_addr := next_addr h + n * k,
              allocations := allocations h + n * k,
              deallocations := deallocations h + n * k,
              constructed := constructed h + n,
              destroyed := destroyed h + n\<rparr>)"
  using \<open>fresh_above h\<close>
proof (induction n arbitrary: h)
  case 0
  then show ?case by simp
next
  case (Suc n)
  let ?h1 = "snd (f h)"
  have h1: "?h1 = h\<lparr>next_addr := next_addr h + k,
                     allocations := allocations h + k,
                     deallocations := deallocations h + k,
                     constructed := constructed h + 1,
                     destroyed := destroyed h + 1\<rparr>"
    by (rule step [OF Suc.prems])
  have "fresh_above ?h1"
    using Suc.prems unfolding h1 by (auto simp: fresh_above_def)
  then have "run_case n f ?h1 = (replicate n r,
            ?h1\<lparr>next_addr := next_addr ?h1 + n * k,
              allocations := allocations ?h1 + n * k,
              deallocations := deallocations ?h1 + n * k,
              constructed := constructed ?h1 + n,
              destroyed := destroyed ?h1 + n\<rparr>)"
    by (rule Suc.IH)
  then show ?case
    by (simp add: split_beta report h1 algebra_simps)
qed

lemma fresh_above_empty_heap: "fresh_above empty_heap"
  by (simp add: fresh_above_def empty_heap_def)

text \<open>What tells the two bodies apart is the number of allocations: two against one.\<close>

lemma allocations_differ:
  assumes "fresh_above h"
  shows "allocations (snd (shared_ptr_new h)) = allocations h + 2"
    and "allocations (snd (shared_ptr_make_shared h)) = allocations h + 1"
  using assms by (simp_all add: shared_ptr_new_heap shared_ptr_make_shared_heap)

section \<open>Properties of the tokenizing driver\<close>

text \<open>
  C1. When \<open>argc\<close> is not 2, \<open>main\<close> inserts the usage line into \<open>std::cout\<close>, returns
  \<open>EXIT_FAILURE\<close>, which is not 0, and does nothing else: no benchmark is handed to the
  harness and no counting pass is made, whatever the harness and the reader are.
\<close>

theorem main_usage:
  assumes "argc \<noteq> 2"
  shows "main n rd argc argv w =
           (EXIT_FAILURE, w\<lparr>cout := cout w @ ''Usage: ./main <csv_file>'' @ [LF]\<rparr>)
         \<and> fst (main n rd argc argv w) \<noteq> 0
         \<and> benchmarks (snd (main n rd argc argv w)) = benchmarks w
         \<and> passes (snd (main n rd argc argv w)) = passes w"
  using assms by (simp add: main_def EXIT_FAILURE_def)

theorem main_usage_witness:
  "(1::int) \<noteq> 2 \<and>
   main 3 (rows_of_chars [''ab'']) 1 [''./main''] quiet =
     (1, \<lparr>cout = ''Usage: ./main <csv_file>'' @ [LF], cerr = [], benchmarks = [], passes = []\<rparr>)"
  using main_usage [of 1 3 "rows_of_chars [''ab'']" "[''./main'']" quiet]
  by (simp add: EXIT_FAILURE_def quiet_def)

text \<open>
  C3. When the mapping of \<open>argv[1]\<close> fails, one execution of the lambda inserts the line
  \<open>error: Failed to open\<close>, the path and a line feed into \<open>std::cout\<close> and changes
  nothing else: no pass over rows and cells is recorded, so no counter is incremented.
  The same holds for each of the \<open>n\<close> executions the harness makes: after \<open>main\<close> the
  world has \<open>n\<close> such lines, the label of the one benchmark, and no pass.
\<close>

theorem unmapped_path_reported:
  assumes "length argv = 2"
    and "\<not> fst (mmap rd (construct rd) (argv ! 1))"
  shows "body rd argv w = w\<lparr>cout := cout w @ ''error: Failed to open '' @ argv ! 1 @ [LF]\<rparr>
       \<and> passes (body rd argv w) = passes w
       \<and> snd (main n rd 2 argv w) =
           w\<lparr>cout := cout w @ concat (replicate n (''error: Failed to open '' @ argv ! 1 @ [LF])),
             benchmarks := benchmarks w @ [''Benchmark #1 csv2 {'' @ argv ! 1 @ ''}'']\<rparr>
       \<and> passes (snd (main n rd 2 argv w)) = passes w"
  using assms(2)
  by (simp add: body_def split_beta main_def benchmark_def iterate_body_unmapped)

theorem unmapped_path_reported_witness:
  "length [''./main'', ''gone.csv''] = 2
   \<and> \<not> fst (mmap no_file (construct no_file) ([''./main'', ''gone.csv''] ! 1))
   \<and> body no_file [''./main'', ''gone.csv''] quiet =
     \<lparr>cout = ''error: Failed to open gone.csv'' @ [LF], cerr = [], benchmarks = [], passes = []\<rparr>
   \<and> snd (main 2 no_file 2 [''./main'', ''gone.csv''] quiet) =
     \<lparr>cout = ''error: Failed to open gone.csv'' @ [LF] @ ''error: Failed to open gone.csv'' @ [LF],
      cerr = [], benchmarks = [''Benchmark #1 csv2 {gone.csv}''], passes = []\<rparr>"
  using unmapped_path_reported [of "[''./main'', ''gone.csv'']" no_file quiet 2]
  by (simp add: no_file_def quiet_def numeral_2_eq_2)

text \<open>
  C4. When \<open>argc\<close> is 2, \<open>main\<close> returns 0 whatever the mapping of \<open>argv[1]\<close> answers. The
  world it leaves is the one of \<open>n\<close> executions of the lambda: with a mapped file \<open>n\<close>
  passes and no output of the driver, with a failed mapping \<open>n\<close> error lines and no pass;
  the exit status is 0 in both.
\<close>

theorem main_completes:
  assumes "argc = 2" and "int (length argv) = argc"
  shows "main n rd argc argv w =
           (0, if fst (mmap rd (construct rd) (argv ! 1))
               then w\<lparr>benchmarks := benchmarks w @ [''Benchmark #1 csv2 {'' @ argv ! 1 @ ''}''],
                      passes := passes w @
                        replicate n (traversal rd (snd (mmap rd (construct rd) (argv ! 1))))\<rparr>
               else w\<lparr>cout := cout w @
                        concat (replicate n (''error: Failed to open '' @ argv ! 1 @ [LF])),
                      benchmarks := benchmarks w @ [''Benchmark #1 csv2 {'' @ argv ! 1 @ ''}'']\<rparr>)"
  using assms(1)
  by (simp add: main_def benchmark_def iterate_body_mapped iterate_body_unmapped)

theorem main_completes_witness:
  "int (length [''./main'', ''gone.csv'']) = 2
   \<and> main 2 no_file 2 [''./main'', ''gone.csv''] quiet =
     (0, \<lparr>cout = ''error: Failed to open gone.csv'' @ [LF] @ ''error: Failed to open gone.csv'' @ [LF],
          cerr = [], benchmarks = [''Benchmark #1 csv2 {gone.csv}''], passes = []\<rparr>)
   \<and> fst (main 2 (rows_of_chars [''ab'']) 2 [''./main'', ''two.csv''] quiet) = 0"
  using main_completes [of 2 "[''./main'', ''gone.csv'']" 2 no_file quiet]
    main_completes [of 2 "[''./main'', ''two.csv'']" 2 "rows_of_chars [''ab'']" quiet]
  by (simp add: no_file_def rows_of_chars_def quiet_def numeral_2_eq_2)

text \<open>
  C8. When \<open>argc\<close> is 2 and the mapping of \<open>argv[1]\<close> succeeds, the \<open>n\<close> executions of the
  lambda make \<open>n\<close> identical passes. Each ends with \<open>rows\<close> the number of rows the reader
  yields and \<open>cells\<close> the number of cells of all rows (modulo \<open>2^64\<close>): the totals are a
  function of what the reader yields for the file, the same on every pass, and the same
  in a second run of \<open>main\<close> on the same arguments from another world \<open>w'\<close>.
\<close>

theorem passes_repeat:
  assumes "argc = 2" and "int (length argv) = argc"
    and "mmap rd (construct rd) (argv ! 1) = (True, csv)"
  shows "drop (length (passes w)) (passes (snd (main n rd argc argv w))) =
           replicate n (traversal rd csv)
       \<and> map last (drop (length (passes w)) (passes (snd (main n rd argc argv w)))) =
           replicate n
             \<lparr>rows = of_nat (length (row_seq rd csv)),
              cells = of_nat (sum_list (map (\<lambda>row. length (cell_seq rd row)) (row_seq rd csv)))\<rparr>
       \<and> drop (length (passes w')) (passes (snd (main n rd argc argv w'))) =
           drop (length (passes w)) (passes (snd (main n rd argc argv w)))"
  using assms(1,3)
  by (simp add: main_def benchmark_def iterate_body_mapped last_traversal)

theorem passes_repeat_witness:
  "int (length [''./main'', ''two.csv'']) = 2
   \<and> mmap (rows_of_chars [''ab'', ''c'']) (construct (rows_of_chars [''ab'', ''c'']))
         ([''./main'', ''two.csv''] ! 1) = (True, ())
   \<and> map last (passes (snd (main 3 (rows_of_chars [''ab'', ''c'']) 2 [''./main'', ''two.csv''] quiet))) =
     [\<lparr>rows = 2, cells = 3\<rparr>, \<lparr>rows = 2, cells = 3\<rparr>, \<lparr>rows = 2, cells = 3\<rparr>]"
  using passes_repeat [of 2 "[''./main'', ''two.csv'']" "rows_of_chars [''ab'', ''c'']" "()" quiet 3]
  by (simp add: rows_of_chars_def quiet_def numeral_3_eq_3 last_traversal)

text \<open>
  C9. Every pass \<open>main\<close> makes starts with \<open>rows = 0\<close> and \<open>cells = 0\<close>, each later pair of
  counters comes from the one before by adding 1 to \<open>rows\<close> or to \<open>cells\<close> and leaving the
  other alone, and the unsigned value of both counters is at least 0 throughout.
\<close>

theorem counters_from_zero_upwards:
  "\<forall>t \<in> set (drop (length (passes w)) (passes (snd (main n rd argc argv w)))).
      hd t = \<lparr>rows = 0, cells = 0\<rparr>
    \<and> successively (\<lambda>c c'. c' = c\<lparr>rows := rows c + 1\<rparr> \<or> c' = c\<lparr>cells := cells c + 1\<rparr>) t
    \<and> (\<forall>c \<in> set t. 0 \<le> uint (rows c) \<and> 0 \<le> uint (cells c))"
  by (simp add: passes_main traversal_steps)

theorem counters_from_zero_upwards_witness:
  "passes (snd (main 1 (rows_of_chars [''ab'']) 2 [''./main'', ''two.csv''] quiet)) =
     [[\<lparr>rows = 0, cells = 0\<rparr>, \<lparr>rows = 1, cells = 0\<rparr>, \<lparr>rows = 1, cells = 1\<rparr>, \<lparr>rows = 1, cells = 2\<rparr>]]
   \<and> list_all (\<lambda>t. hd t = \<lparr>rows = 0, cells = 0\<rparr>
        \<and> successively (\<lambda>c c'. c' = c\<lparr>rows := rows c + 1\<rparr> \<or> c' = c\<lparr>cells := cells c + 1\<rparr>) t)
       (passes (snd (main 1 (rows_of_chars [''ab'']) 2 [''./main'', ''two.csv''] quiet)))"
  using counters_from_zero_upwards [of quiet 1 "rows_of_chars [''ab'']" 2 "[''./main'', ''two.csv'']"]
  by (simp add: main_def benchmark_def body_def traversal_def rows_of_chars_def quiet_def list_all_iff)

text \<open>
  C10. The usage line (when \<open>argc\<close> is not 2) and the error line of a failed mapping are
  appended to \<open>std::cout\<close>, and \<open>std::cerr\<close> is left as it was; no path through \<open>main\<close>
  writes to \<open>std::cerr\<close>.
\<close>

theorem diagnostics_on_cout:
  "(argc \<noteq> 2 \<longrightarrow>
      cout (snd (main n rd argc argv w)) = cout w @ ''Usage: ./main <csv_file>'' @ [LF]
    \<and> cerr (snd (main n rd argc argv w)) = cerr w)
 \<and> (\<not> fst (mmap rd (construct rd) (argv ! 1)) \<longrightarrow>
      cout (body rd argv w) = cout w @ ''error: Failed to open '' @ argv ! 1 @ [LF]
    \<and> cerr (body rd argv w) = cerr w)
 \<and> cerr (snd (main n rd argc argv w)) = cerr w"
  by (simp add: main_def benchmark_def body_def split_beta cerr_iterate_body)

theorem diagnostics_on_cout_witness:
  "(1::int) \<noteq> 2
 \<and> \<not> fst (mmap no_file (construct no_file) ([''./main'', ''gone.csv''] ! 1))
 \<and> cout (snd (main 3 no_file 1 [''./main''] (quiet\<lparr>cerr := ''earlier''\<rparr>))) = ''Usage: ./main <csv_file>'' @ [LF]
 \<and> cerr (snd (main 3 no_file 1 [''./main''] (quiet\<lparr>cerr := ''earlier''\<rparr>))) = ''earlier''
 \<and> cout (body no_file [''./main'', ''gone.csv''] (quiet\<lparr>cerr := ''earlier''\<rparr>)) = ''error: Failed to open gone.csv'' @ [LF]
 \<and> cerr (body no_file [''./main'', ''gone.csv''] (quiet\<lparr>cerr := ''earlier''\<rparr>)) = ''earlier''"
  using diagnostics_on_cout [of 1 3 no_file "[''./main'']" "quiet\<lparr>cerr := ''earlier''\<rparr>"]
    diagnostics_on_cout [of 2 3 no_file "[''./main'', ''gone.csv'']" "quiet\<lparr>cerr := ''earlier''\<rparr>"]
  by (simp add: no_file_def quiet_def)

section \<open>Properties of the tokenizer\<close>

text \<open>
  C2. With delimiter \<open>,\<close>, quote character \<open>"\<close> and no header, a file holding
  \<open>a,b,c\<close>, a line feed, \<open>1,2,3\<close> and a line feed makes one execution of the lambda
  finish its pass with \<open>rows = 2\<close> and \<open>cells = 6\<close>.
\<close>

theorem csv2_two_rows_six_cells:
  assumes "1 < length argv"
    and "fs (argv ! 1) = Some (''a,b,c'' @ [LF] @ ''1,2,3'' @ [LF])"
  shows "map last (drop (length (passes w)) (passes (body (csv2 (CHR '','') (CHR 0x22) False fs) argv w))) =
           [\<lparr>rows = 2, cells = 6\<rparr>]"
  using assms(2) by (simp add: body_def csv2_def last_traversal)

theorem csv2_two_rows_six_cells_witness:
  "1 < length [''./main'', ''abc.csv'']
   \<and> map last (passes (body
      (csv2 (CHR '','') (CHR 0x22) False
         (\<lambda>p. if p = ''abc.csv'' then Some (''a,b,c'' @ [LF] @ ''1,2,3'' @ [LF]) else None))
      [''./main'', ''abc.csv''] quiet)) =
   [\<lparr>rows = 2, cells = 6\<rparr>]"
  using csv2_two_rows_six_cells [of "[''./main'', ''abc.csv'']"
      "\<lambda>p. if p = ''abc.csv'' then Some (''a,b,c'' @ [LF] @ ''1,2,3'' @ [LF]) else None" quiet]
  by (simp add: quiet_def)

text \<open>
  C7. With the same configuration, a file holding \<open>x\<close> and a line feed makes one
  execution of the lambda finish its pass with \<open>rows = 1\<close> and \<open>cells = 1\<close>.
\<close>

theorem csv2_single_field:
  assumes "1 < length argv"
    and "fs (argv ! 1) = Some (''x'' @ [LF])"
  shows "map last (drop (length (passes w)) (passes (body (csv2 (CHR '','') (CHR 0x22) False fs) argv w))) =
           [\<lparr>rows = 1, cells = 1\<rparr>]"
  using assms(2) by (simp add: body_def csv2_def last_traversal)

theorem csv2_single_field_witness:
  "1 < length [''./main'', ''x.csv'']
   \<and> map last (passes (body
      (csv2 (CHR '','') (CHR 0x22) False (\<lambda>p. if p = ''x.csv'' then Some (''x'' @ [LF]) else None))
      [''./main'', ''x.csv''] quiet)) =
   [\<lparr>rows = 1, cells = 1\<rparr>]"
  using csv2_single_field [of "[''./main'', ''x.csv'']"
      "\<lambda>p. if p = ''x.csv'' then Some (''x'' @ [LF]) else None" quiet]
  by (simp add: quiet_def)

section \<open>Properties of the allocation benchmarks\<close>

text \<open>
  C5. From a store whose unused addresses are free, the two bodies show the same
  handle: one owner while \<open>foo_ptr\<close> is in scope, the same \<open>Foo\<close> with its default
  members behind it, no owner once the scope ends. They leave the same blocks in the
  store and have run the constructor and the destructor of \<open>Foo\<close> equally often; run
  \<open>n\<close> times, they give the same reports.
\<close>

theorem construction_strategies_agree:
  assumes "fresh_above h"
  shows "fst (shared_ptr_new h) = fst (shared_ptr_make_shared h)
       \<and> fst (shared_ptr_new h) = \<lparr>owners = 1, pointee = Some Foo_init, owners_at_exit = 0\<rparr>
       \<and> blocks (snd (shared_ptr_new h)) = blocks (snd (shared_ptr_make_shared h))
       \<and> constructed (snd (shared_ptr_new h)) = constructed (snd (shared_ptr_make_shared h))
       \<and> destroyed (snd (shared_ptr_new h)) = destroyed (snd (shared_ptr_make_shared h))
       \<and> fst (run_case n shared_ptr_new h) = fst (run_case n shared_ptr_make_shared h)"
  using assms
    run_case_cycles [of shared_ptr_new 2, OF shared_ptr_new_heap shared_ptr_new_report assms, of n]
    run_case_cycles [of shared_ptr_make_shared 1, OF shared_ptr_make_shared_heap
      shared_ptr_make_shared_report assms, of n]
  by (simp add: shared_ptr_new_report shared_ptr_make_shared_report shared_ptr_new_heap
      shared_ptr_make_shared_heap)

theorem construction_strategies_agree_witness:
  "fresh_above empty_heap
   \<and> fst (shared_ptr_new empty_heap) = fst (shared_ptr_make_shared empty_heap)
   \<and> fst (shared_ptr_make_shared empty_heap) =
       \<lparr>owners = 1,
        pointee = Some \<lparr>data_1 = ''1234567891012131415161718192021'', data_2 = 5, data_3 = 0x40490E56\<rparr>,
        owners_at_exit = 0\<rparr>
   \<and> blocks (snd (shared_ptr_new empty_heap)) = []
   \<and> blocks (snd (shared_ptr_make_shared empty_heap)) = []"
proof -
  have "blocks (snd (shared_ptr_make_shared empty_heap)) = blocks empty_heap"
    by (simp add: shared_ptr_make_shared_heap fresh_above_empty_heap)
  then have "blocks (snd (shared_ptr_make_shared empty_heap)) = []"
    by (simp add: empty_heap_def)
  with construction_strategies_agree [OF fresh_above_empty_heap, of 1] show ?thesis
    by (simp add: Foo_init_def shared_ptr_make_shared_report fresh_above_empty_heap)
qed

text \<open>
  C6. From a store whose unused addresses are free, \<open>n\<close> executions of either body run
  the constructor of \<open>Foo\<close> \<open>n\<close> times and its destructor \<open>n\<close> times, leave the blocks of
  the store as they were (nothing leaks; every allocation is given back), and in every
  execution the handle has one owner inside the scope and none after it.
\<close>

theorem construct_destroy_cycles:
  assumes "fresh_above h"
    and "f = shared_ptr_new \<or> f = shared_ptr_make_shared"
  shows "constructed (snd (run_case n f h)) = constructed h + n
       \<and> destroyed (snd (run_case n f h)) = destroyed h + n
       \<and> blocks (snd (run_case n f h)) = blocks h
       \<and> allocations (snd (run_case n f h)) + deallocations h =
           deallocations (snd (run_case n f h)) + allocations h
       \<and> fst (run_case n f h) =
           replicate n \<lparr>owners = 1, pointee = Some Foo_init, owners_at_exit = 0\<rparr>"
proof -
  from assms(2) show ?thesis
  proof
    assume "f = shared_ptr_new"
    then show ?thesis
      using run_case_cycles [of shared_ptr_new 2, OF shared_ptr_new_heap shared_ptr_new_report
          assms(1), of n]
      by simp
  next
    assume "f = shared_ptr_make_shared"
    then show ?thesis
      using run_case_cycles [of shared_ptr_make_shared 1, OF shared_ptr_make_shared_heap
          shared_ptr_make_shared_report assms(1), of n]
      by simp
  qed
qed

theorem construct_destroy_cycles_witness:
  "fresh_above empty_heap
   \<and> run_case 3 shared_ptr_new empty_heap =
     (replicate 3 \<lparr>owners = 1, pointee = Some Foo_init, owners_at_exit = 0\<rparr>,
      \<lparr>blocks = [], next_addr = 6, allocations = 6, deallocations = 6, constructed = 3, destroyed = 3\<rparr>)
   \<and> run_case 3 shared_ptr_make_shared empty_heap =
     (replicate 3 \<lparr>owners = 1, pointee = Some Foo_init, owners_at_exit = 0\<rparr>,
      \<lparr>blocks = [], next_addr = 3, allocations = 3, deallocations = 3, constructed = 3, destroyed = 3\<rparr>)"
  using construct_destroy_cycles [OF fresh_above_empty_heap, of shared_ptr_new 3]
    construct_destroy_cycles [OF fresh_above_empty_heap, of shared_ptr_make_shared 3]
    run_case_cycles [of shared_ptr_new 2, OF shared_ptr_new_heap shared_ptr_new_report
      fresh_above_empty_heap, of 3]
    run_case_cycles [of shared_ptr_make_shared 1, OF shared_ptr_make_shared_heap
      shared_ptr_make_shared_report fresh_above_empty_heap, of 3]
  by (simp add: empty_heap_def fresh_above_def)

end
